theory Spec2Isabelle
  imports Main "HOL-Library.Char_ord" "HOL-Library.List_Lexorder"
begin

section \<open>Strings, JSON values and the collaborators of the program\<close>

text \<open>
  The program (WEBRTC_GSTREAMER.cpp) is a chain of callbacks around three libraries:
  libcurl, nlohmann::json and GStreamer's webrtcbin. Every effect of the program is an
  \<open>event\<close> of a trace, in program order; what the libraries and the network answer is
  read from a \<open>world\<close>. A call that the C++ leaves undefined (a null pointer handed to
  \<open>std::string\<close>, a member read through a null pointer) ends the run with a \<open>fault\<close>.
\<close>

definition nl :: string where
  "nl = [CHR 0x0A]"

text \<open>\<open>s.c_str()\<close> as a C string consumer reads it: up to the first NUL byte.\<close>

definition c_str :: "string \<Rightarrow> string" where
  "c_str s = takeWhile (\<lambda>c. c \<noteq> CHR 0x00) s"

datatype json = JNull | JBool bool | JNumber int | JString string
  | JArray "json list" | JObject "(string \<times> json) list"

text \<open>
  \<open>j.contains(key)\<close>: true only for an object that holds the key.
  \<open>j[key]\<close>: the member of an object (null when the key is new).
  The implicit conversion to \<open>std::string\<close> throws type_error 302 (here \<open>None\<close>) on
  anything but a JSON string.
\<close>

fun object_find :: "json \<Rightarrow> string \<Rightarrow> json option" where
  "object_find (JObject ms) k = map_of ms k"
| "object_find _ k = None"

definition contains :: "json \<Rightarrow> string \<Rightarrow> bool" where
  "contains j k = (case object_find j k of None \<Rightarrow> False | Some v \<Rightarrow> True)"

definition subscript :: "json \<Rightarrow> string \<Rightarrow> json" where
  "subscript j k = (case object_find j k of None \<Rightarrow> JNull | Some v \<Rightarrow> v)"

fun get_string :: "json \<Rightarrow> string option" where
  "get_string (JString s) = Some s"
| "get_string _ = None"

fun type_name :: "json \<Rightarrow> string" where
  "type_name JNull = ''null''"
| "type_name (JBool b) = ''boolean''"
| "type_name (JNumber n) = ''number''"
| "type_name (JString s) = ''string''"
| "type_name (JArray xs) = ''array''"
| "type_name (JObject ms) = ''object''"

definition type_error_what :: "json \<Rightarrow> string" where
  "type_error_what j =
     ''[json.exception.type_error.302] type must be string, but is '' @ type_name j"

type_synonym CURLcode = nat

abbreviation CURLE_OK :: CURLcode where
  "CURLE_OK \<equiv> 0"

record http_request =
  url :: string
  httpheader :: "string list"
  postfields :: string

datatype curl_option =
    CURLOPT_URL string
  | CURLOPT_HTTPHEADER "string list"
  | CURLOPT_POSTFIELDS string
  | CURLOPT_POSTFIELDSIZE nat
  | CURLOPT_WRITEFUNCTION
  | CURLOPT_WRITEDATA

type_synonym channel = nat

datatype GstSDPResult = GST_SDP_OK | GST_SDP_EINVAL

type_synonym GstSDPMessage = "string list"

datatype callee = CreateEphemeralKey | PostOfferAndGetAnswer

text \<open>
  The events of a trace. \<open>Call\<close> and \<open>Return\<close> mark where the offer callback enters and
  leaves one of the two HTTP helpers (lines 215 and 216); \<open>Emit...\<close> are the signals the
  program emits on webrtcbin and on a data channel, \<open>ConnectOnOpen\<close> the connection of
  on_data_channel_open to a channel's \<open>on-open\<close>; \<open>Gst\<close> names a GLib or GStreamer call
  that only builds or frees an object.
\<close>

datatype event =
    Stdout string
  | Stderr string
  | Getenv string
  | CurlEasyInit
  | CurlSlistAppend string
  | CurlSetopt curl_option
  | CurlPerform http_request
  | CurlSlistFreeAll
  | CurlCleanup
  | Call callee
  | Return callee string
  | EmitCreateDataChannel string
  | ConnectOnOpen channel
  | EmitCreateOffer
  | EmitSetLocalDescription string
  | EmitSetRemoteDescription GstSDPMessage
  | EmitSendString channel string
  | Gst string

datatype fault = NullString | NullOffer

datatype 'a outcome = Returned 'a | Aborted fault

text \<open>
  One easy handle of libcurl: whether \<open>curl_easy_init\<close> gave a handle, and what
  \<open>curl_easy_perform\<close> does with the request: the chunks it hands to the write callback,
  in order, and then its result code. A transfer can hand over chunks and still fail
  (a connection reset in the middle of the body).
\<close>

record curl_easy =
  easy_init :: bool
  easy_perform :: "http_request \<Rightarrow> string list \<times> CURLcode"

text \<open>
  What the program reads from outside: the environment, the handle of each of the two
  HTTP calls of an attempt, the library functions \<open>curl_easy_strerror\<close>,
  \<open>nlohmann::json::parse\<close> (\<open>Inl\<close> is the \<open>what()\<close> of the exception it throws) and
  \<open>gst_sdp_message_parse_buffer\<close>, the channel the engine gives for create-data-channel
  (\<open>None\<close> is the null handle) and the text of the offer in the reply of the promise.
\<close>

record world =
  getenv :: "string \<Rightarrow> string option"
  fetch_curl :: curl_easy
  exchange_curl :: curl_easy
  curl_easy_strerror :: "CURLcode \<Rightarrow> string"
  json_parse :: "string \<Rightarrow> string + json"
  create_data_channel :: "channel option"
  create_offer :: "string option"
  gst_sdp_message_parse_buffer :: "string \<Rightarrow> GstSDPResult \<times> GstSDPMessage"

section \<open>The HTTP helpers\<close>

definition WriteCallback :: "string \<Rightarrow> string \<Rightarrow> string" where
  "WriteCallback userp contents = userp @ contents"

text \<open>
  post_offer_and_get_answer, lines 42-74. The body that goes out is \<open>offer_sdp.size()\<close>
  bytes from \<open>offer_sdp.c_str()\<close>, the whole string; a header is a C string.
\<close>

definition post_offer_and_get_answer ::
  "world \<Rightarrow> string \<Rightarrow> string \<Rightarrow> event list \<times> string" where
  "post_offer_and_get_answer w offer_sdp ephemeral_key =
     (if easy_init (exchange_curl w) then
        (let h1 = c_str (''Authorization: Bearer '' @ ephemeral_key);
             h2 = ''Content-Type: application/sdp'';
             h3 = ''Accept: application/sdp'';
             headers = [h1, h2, h3];
             target = ''https://api.openai.com/v1/realtime?model=gpt-4o-realtime-preview'';
             req = \<lparr>url = target, httpheader = headers, postfields = offer_sdp\<rparr>;
             (chunks, res) = easy_perform (exchange_curl w) req;
             readBuffer = foldl WriteCallback [] chunks
         in ([CurlEasyInit, CurlSlistAppend h1, CurlSlistAppend h2, CurlSlistAppend h3,
              CurlSetopt (CURLOPT_URL target), CurlSetopt (CURLOPT_HTTPHEADER headers),
              CurlSetopt (CURLOPT_POSTFIELDS offer_sdp),
              CurlSetopt (CURLOPT_POSTFIELDSIZE (length offer_sdp)),
              CurlSetopt CURLOPT_WRITEFUNCTION, CurlSetopt CURLOPT_WRITEDATA,
              CurlPerform req]
             @ (if res = CURLE_OK
                then [Stdout (''[OK] HTTP request success.'' @ nl),
                      Stdout (''Response: '' @ readBuffer @ nl)]
                else [Stderr (''[ERR] CURL failed: '' @ curl_easy_strerror w res @ nl)])
             @ [CurlSlistFreeAll, CurlCleanup],
             readBuffer))
      else ([CurlEasyInit], ''''))"

text \<open>The body of create_ephemeral_key after the transfer, lines 113-127.\<close>

definition key_of_response :: "world \<Rightarrow> CURLcode \<Rightarrow> string \<Rightarrow> event list \<times> string" where
  "key_of_response w res readBuffer =
     (if res = CURLE_OK then
        (case json_parse w readBuffer of
           Inl what \<Rightarrow> ([Stderr (''[ERR] JSON parse error: '' @ what @ nl)], '''')
         | Inr json_resp \<Rightarrow>
             (if contains json_resp ''client_secret''
                 \<and> contains (subscript json_resp ''client_secret'') ''value''
              then
                (case get_string (subscript (subscript json_resp ''client_secret'') ''value'') of
                   None \<Rightarrow>
                     ([Stderr (''[ERR] JSON parse error: ''
                         @ type_error_what
                             (subscript (subscript json_resp ''client_secret'') ''value'')
                         @ nl)], '''')
                 | Some ephemeral_key \<Rightarrow>
                     ([Stdout (''[KEY] Ephemeral key: '' @ take 20 ephemeral_key
                         @ ''...'' @ nl)], ephemeral_key))
              else ([Stderr (''[ERR] Unexpected response: '' @ readBuffer @ nl)], '''')))
      else ([Stderr (''[ERR] CURL request failed: '' @ curl_easy_strerror w res @ nl)], ''''))"

text \<open>The request create_ephemeral_key builds from the API key, lines 94-110.\<close>

definition session_request :: "string \<Rightarrow> http_request" where
  "session_request api_key =
     \<lparr>url = ''https://api.openai.com/v1/realtime/sessions'',
      httpheader = [c_str (''Authorization: Bearer '' @ api_key),
                    ''Content-Type: application/json''],
      postfields = ''{\"model\": \"gpt-4o-realtime-preview\"}''\<rparr>"

text \<open>
  create_ephemeral_key, lines 87-132. \<open>std::getenv\<close> gives a null pointer for a variable
  that is not set, and line 94 builds a \<open>std::string\<close> from it unchecked.
\<close>

definition create_ephemeral_key :: "world \<Rightarrow> event list \<times> string outcome" where
  "create_ephemeral_key w =
     (if easy_init (fetch_curl w) then
        (case getenv w ''OPENAI_API_KEY'' of
           None \<Rightarrow> ([CurlEasyInit, Getenv ''OPENAI_API_KEY''], Aborted NullString)
         | Some api_key \<Rightarrow>
             (let req = session_request api_key;
                  (chunks, res) = easy_perform (fetch_curl w) req;
                  readBuffer = foldl WriteCallback [] chunks;
                  (logs, ephemeral_key) = key_of_response w res readBuffer
              in ([CurlEasyInit, Getenv ''OPENAI_API_KEY'']
                  @ map CurlSlistAppend (httpheader req)
                  @ [CurlSetopt (CURLOPT_URL (url req)),
                     CurlSetopt (CURLOPT_HTTPHEADER (httpheader req)),
                     CurlSetopt (CURLOPT_POSTFIELDS (postfields req)),
                     CurlSetopt CURLOPT_WRITEFUNCTION, CurlSetopt CURLOPT_WRITEDATA,
                     CurlPerform req]
                  @ logs @ [CurlSlistFreeAll, CurlCleanup],
                  Returned ephemeral_key)))
      else ([CurlEasyInit], Returned ''''))"

section \<open>The session configuration message\<close>

text \<open>
  \<open>nlohmann::json\<close> keeps the members of an object in a \<open>std::map\<close>: ordered by key
  (bytewise), one value per key. Building an object from an initializer list emplaces the
  pairs one by one, and emplace keeps the value a key already has.
\<close>

fun emplace :: "string \<Rightarrow> json \<Rightarrow> (string \<times> json) list \<Rightarrow> (string \<times> json) list" where
  "emplace k v [] = [(k, v)]"
| "emplace k v ((k', v') # ms) =
     (if k < k' then (k, v) # (k', v') # ms
      else if k = k' then (k', v') # ms
      else (k', v') # emplace k v ms)"

definition json_object :: "(string \<times> json) list \<Rightarrow> json" where
  "json_object init = JObject (foldl (\<lambda>ms (k, v). emplace k v ms) [] init)"

text \<open>
  \<open>dump()\<close> with its default arguments: no whitespace, members in the order of the map,
  strings escaped. The strings of this program are ASCII; bytes from 0x80 on are copied
  (dump checks that they are UTF-8, which is not modelled).
\<close>

definition hex_digit :: "nat \<Rightarrow> char" where
  "hex_digit n = ''0123456789abcdef'' ! (n mod 16)"

definition escape_char :: "char \<Rightarrow> string" where
  "escape_char c =
     (if c = CHR 0x22 then [CHR 0x5C, CHR 0x22]
      else if c = CHR 0x5C then [CHR 0x5C, CHR 0x5C]
      else if c = CHR 0x08 then [CHR 0x5C, CHR ''b'']
      else if c = CHR 0x0C then [CHR 0x5C, CHR ''f'']
      else if c = CHR 0x0A then [CHR 0x5C, CHR ''n'']
      else if c = CHR 0x0D then [CHR 0x5C, CHR ''r'']
      else if c = CHR 0x09 then [CHR 0x5C, CHR ''t'']
      else if (of_char c :: nat) < 32
        then [CHR 0x5C, CHR ''u'', CHR ''0'', CHR ''0'',
              hex_digit (of_char c div 16), hex_digit (of_char c)]
      else [c])"

definition dump_string :: "string \<Rightarrow> string" where
  "dump_string s = [CHR 0x22] @ concat (map escape_char s) @ [CHR 0x22]"

fun digits :: "nat \<Rightarrow> string" where
  "digits n = (if n < 10 then [char_of (48 + n)] else digits (n div 10) @ [char_of (48 + n mod 10)])"

definition dump_int :: "int \<Rightarrow> string" where
  "dump_int i = (if i < 0 then ''-'' @ digits (nat (- i)) else digits (nat i))"

fun dump :: "json \<Rightarrow> string"
  and dump_members :: "(string \<times> json) list \<Rightarrow> string"
  and dump_elements :: "json list \<Rightarrow> string" where
  "dump JNull = ''null''"
| "dump (JBool b) = (if b then ''true'' else ''false'')"
| "dump (JNumber n) = dump_int n"
| "dump (JString s) = dump_string s"
| "dump (JArray xs) = ''['' @ dump_elements xs @ '']''"
| "dump (JObject ms) = ''{'' @ dump_members ms @ ''}''"
| "dump_members [] = []"
| "dump_members [(k, v)] = dump_string k @ '':'' @ dump v"
| "dump_members ((k, v) # m # ms) =
     dump_string k @ '':'' @ dump v @ '','' @ dump_members (m # ms)"
| "dump_elements [] = []"
| "dump_elements [x] = dump x"
| "dump_elements (x # y # ys) = dump x @ '','' @ dump_elements (y # ys)"

text \<open>The object on_data_channel_open builds, lines 140-150.\<close>

definition session_update :: json where
  "session_update =
     json_object
       [(''type'', JString ''session.update''),
        (''session'', json_object
           [(''input_audio_format'', JString ''pcm24''),
            (''input_text'', JBool True),
            (''output_audio_format'', JString ''pcm24''),
            (''output_text'', JBool True),
            (''voice_activity_detection'', json_object [(''mode'', JString ''advanced'')]),
            (''instructions'', JString
               ''You are connected from C++ GStreamer client with advanced VAD enabled (PCM24).'')])]"

text \<open>on_data_channel_open, lines 137-156.\<close>

definition on_data_channel_open :: "channel \<Rightarrow> event list" where
  "on_data_channel_open channel =
     (let message = dump session_update
      in [Stdout (''[DC] DataChannel opened. Sending session.update...'' @ nl),
          EmitSendString channel (c_str message),
          Stdout (''[SEND] session.update sent: '' @ message @ nl)])"

section \<open>Negotiation\<close>

text \<open>
  on_negotiation_needed without the body of the promise's callback, lines 169-197 and 240.
\<close>

definition on_negotiation_needed :: "world \<Rightarrow> event list" where
  "on_negotiation_needed w =
     [Stdout (''[NEG] on-negotiation-needed'' @ nl), EmitCreateDataChannel ''data'']
     @ (case create_data_channel w of
          Some data_channel \<Rightarrow>
            [Stdout (''[DC] DataChannel created'' @ nl),
             ConnectOnOpen data_channel,
             Gst ''gst_object_unref'']
        | None \<Rightarrow>
            [Stderr (''[ERR] Failed to create DataChannel. session.update cannot be sent.''
               @ nl)])
     @ [Gst ''gst_promise_new_with_change_func'', EmitCreateOffer]"

text \<open>
  The callback of the promise, lines 199-236, run by the engine when the offer is there.
  \<open>create_offer w\<close> is the text of the offer in the reply; with no offer in the reply the
  pointer stays null and line 207 reads through it. \<open>sdp_str\<close> is a C string.
\<close>

definition offer_callback :: "world \<Rightarrow> event list \<times> unit outcome" where
  "offer_callback w =
     (case create_offer w of
        None \<Rightarrow>
          ([Gst ''gst_promise_get_reply'', Gst ''gst_structure_get'', Gst ''gst_promise_unref''],
           Aborted NullOffer)
      | Some offer \<Rightarrow>
          (let sdp_str = c_str offer;
               pre =
                 [Gst ''gst_promise_get_reply'', Gst ''gst_structure_get'',
                  Gst ''gst_promise_unref'', Gst ''gst_sdp_message_as_text'',
                  Stdout (''[SDP] Local offer set'' @ nl),
                  Stdout (''---- SDP OFFER ----'' @ nl @ sdp_str @ nl @ ''---- END ----'' @ nl),
                  EmitSetLocalDescription offer,
                  Call CreateEphemeralKey];
               (t1, r1) = create_ephemeral_key w
           in case r1 of
                Aborted f \<Rightarrow> (pre @ t1, Aborted f)
              | Returned ephemeral_key \<Rightarrow>
                  (let (t2, answer_sdp) = post_offer_and_get_answer w sdp_str ephemeral_key
                   in (pre @ t1
                       @ [Return CreateEphemeralKey ephemeral_key, Call PostOfferAndGetAnswer]
                       @ t2
                       @ [Return PostOfferAndGetAnswer answer_sdp,
                          Stdout (''---- SDP ANSWER ----'' @ nl @ answer_sdp @ nl
                                  @ ''---- END ----'' @ nl)]
                       @ (if answer_sdp = [] then []
                          else [Gst ''gst_sdp_message_new'',
                                Gst ''gst_sdp_message_parse_buffer'',
                                Gst ''gst_webrtc_session_description_new'',
                                EmitSetRemoteDescription
                                  (snd (gst_sdp_message_parse_buffer w answer_sdp)),
                                Stdout (''[SDP] Remote answer set.'' @ nl),
                                Gst ''gst_webrtc_session_description_free''])
                       @ [Gst ''g_free'', Gst ''gst_webrtc_session_description_free''],
                       Returned ()))))"

text \<open>One attempt: the trigger, then the callback of its promise.\<close>

definition negotiation_attempt :: "world \<Rightarrow> event list \<times> unit outcome" where
  "negotiation_attempt w =
     (let (t, r) = offer_callback w in (on_negotiation_needed w @ t, r))"

section \<open>The main loop\<close>

text \<open>
  The signals the engine delivers to the callbacks main connects, one at a time on the
  loop's thread. \<open>on-open\<close> of a channel runs every handler connected to that channel.
\<close>

datatype signal =
    OnNegotiationNeeded
  | OnOpen channel
  | OnIceConnectionState nat
  | OnIceCandidate string

fun connected :: "event list \<Rightarrow> channel list" where
  "connected [] = []"
| "connected (ConnectOnOpen c # es) = c # connected es"
| "connected (e # es) = connected es"

definition emit_on_open :: "channel list \<Rightarrow> channel \<Rightarrow> event list" where
  "emit_on_open handlers c = concat (map on_data_channel_open (filter (\<lambda>h. h = c) handlers))"

text \<open>
  on_ice_state_change, lines 250-287, on the value of \<open>ice-connection-state\<close>
  (\<open>GST_WEBRTC_ICE_CONNECTION_STATE_NEW\<close> is 0, \<open>..._CLOSED\<close> is 6).
\<close>

definition on_ice_state_change :: "nat \<Rightarrow> event list" where
  "on_ice_state_change state =
     [Stdout
        (if state = 0 then ''[ICE] New'' @ nl
         else if state = 1 then ''[ICE] Checking'' @ nl
         else if state = 2 then ''[ICE] Connected'' @ nl
         else if state = 3 then ''[ICE] Completed'' @ nl
         else if state = 4 then ''[ICE] Failed'' @ nl
         else if state = 5 then ''[ICE] Disconnected'' @ nl
         else if state = 6 then ''[ICE] Closed'' @ nl
         else ''[ICE] Unknown or new state: '' @ digits state @ nl)]"

definition on_ice_candidate :: "string \<Rightarrow> event list" where
  "on_ice_candidate candidate = [Stdout (''[ICE] Candidate gathered: '' @ candidate @ nl)]"

fun main_loop :: "world \<Rightarrow> channel list \<Rightarrow> signal list \<Rightarrow> event list \<times> unit outcome" where
  "main_loop w handlers [] = ([], Returned ())"
| "main_loop w handlers (OnNegotiationNeeded # sigs) =
     (let (t, r) = negotiation_attempt w
      in case r of
           Aborted f \<Rightarrow> (t, Aborted f)
         | Returned u \<Rightarrow>
             (let (t', r') = main_loop w (handlers @ connected t) sigs in (t @ t', r')))"
| "main_loop w handlers (OnOpen c # sigs) =
     (let (t', r') = main_loop w handlers sigs in (emit_on_open handlers c @ t', r'))"
| "main_loop w handlers (OnIceConnectionState state # sigs) =
     (let (t', r') = main_loop w handlers sigs in (on_ice_state_change state @ t', r'))"
| "main_loop w handlers (OnIceCandidate candidate # sigs) =
     (let (t', r') = main_loop w handlers sigs in (on_ice_candidate candidate @ t', r'))"

text \<open>main up to \<open>g_main_loop_run\<close>, lines 312-341. Nothing in the program quits the loop.\<close>

definition main_setup :: "event list" where
  "main_setup =
     [Gst ''gst_init'', Gst ''g_main_loop_new'', Gst ''gst_pipeline_new'',
      Gst ''gst_element_factory_make'', Gst ''g_object_set'', Gst ''gst_bin_add'',
      Gst ''g_signal_connect on-negotiation-needed'',
      Gst ''g_signal_connect notify::ice-connection-state'',
      Gst ''g_signal_connect on-ice-candidate'',
      Gst ''gst_element_set_state'',
      Stdout (''Running main loop... (Ctrl+C to quit)'' @ nl),
      Gst ''g_main_loop_run'']"

definition main :: "world \<Rightarrow> signal list \<Rightarrow> event list \<times> unit outcome" where
  "main w sigs = (let (t, r) = main_loop w [] sigs in (main_setup @ t, r))"

section \<open>Reading a trace\<close>

fun sent :: "event list \<Rightarrow> string list" where
  "sent [] = []"
| "sent (EmitSendString c m # es) = m # sent es"
| "sent (e # es) = sent es"

datatype step =
    StepCreateDataChannel | StepCreateOffer | StepSetLocal | StepFetchStart | StepFetchDone
  | StepExchangeStart | StepExchangeDone | StepSetRemote

fun step_of :: "event \<Rightarrow> step option" where
  "step_of (EmitCreateDataChannel l) = Some StepCreateDataChannel"
| "step_of EmitCreateOffer = Some StepCreateOffer"
| "step_of (EmitSetLocalDescription d) = Some StepSetLocal"
| "step_of (Call CreateEphemeralKey) = Some StepFetchStart"
| "step_of (Return CreateEphemeralKey k) = Some StepFetchDone"
| "step_of (Call PostOfferAndGetAnswer) = Some StepExchangeStart"
| "step_of (Return PostOfferAndGetAnswer a) = Some StepExchangeDone"
| "step_of (EmitSetRemoteDescription m) = Some StepSetRemote"
| "step_of e = None"

definition steps :: "event list \<Rightarrow> step list" where
  "steps t = List.map_filter step_of t"

text \<open>
  The program keeps no phase variable. The two terminal phases of an attempt in the
  specification (section 4.1) are read from its trace: the attempt ends in
  \<open>AnswerApplied\<close> when the remote description was handed to the engine, and in
  \<open>Failed\<close> when it ended without that.
\<close>

datatype phase = AnswerApplied | Failed

definition terminal_phase :: "event list \<Rightarrow> phase" where
  "terminal_phase t = (if StepSetRemote \<in> set (steps t) then AnswerApplied else Failed)"

section \<open>Sample worlds\<close>

definition refusing_curl :: curl_easy where
  "refusing_curl = \<lparr>easy_init = False, easy_perform = (\<lambda>req. ([], 2))\<rparr>"

definition serving_curl :: "string list \<Rightarrow> CURLcode \<Rightarrow> curl_easy" where
  "serving_curl chunks res = \<lparr>easy_init = True, easy_perform = (\<lambda>req. (chunks, res))\<rparr>"

definition sample_strerror :: "CURLcode \<Rightarrow> string" where
  "sample_strerror c =
     (if c = 7 then ''Couldn't connect to server''
      else if c = 56 then ''Failure when receiving data from the peer''
      else ''Unknown error'')"

definition sample_environ :: "string \<Rightarrow> string option" where
  "sample_environ name = (if name = ''OPENAI_API_KEY'' then Some ''sk-test'' else None)"

text \<open>What the JSON parser gives on the bodies the sample worlds use.\<close>

definition sample_json_parse :: "string \<Rightarrow> string + json" where
  "sample_json_parse body =
     (if body = ''{\"client_secret\":{\"value\":\"ek_123\"}}''
        then Inr (JObject [(''client_secret'', JObject [(''value'', JString ''ek_123'')])])
      else if body = ''{\"error\":{\"code\":\"invalid_api_key\"}}''
        then Inr (JObject [(''error'', JObject [(''code'', JString ''invalid_api_key'')])])
      else Inl ''[json.exception.parse_error.101] parse error'')"

definition sample_sdp_parse :: "string \<Rightarrow> GstSDPResult \<times> GstSDPMessage" where
  "sample_sdp_parse body =
     (if take 2 body = ''v='' then (GST_SDP_OK, [body]) else (GST_SDP_EINVAL, []))"

definition sample_world :: world where
  "sample_world =
     \<lparr>getenv = sample_environ,
      fetch_curl = serving_curl [''{\"client_secret\":'', ''{\"value\":\"ek_123\"}}''] CURLE_OK,
      exchange_curl = serving_curl [''v=0 answer''] CURLE_OK,
      curl_easy_strerror = sample_strerror,
      json_parse = sample_json_parse,
      create_data_channel = Some 1,
      create_offer = Some ''v=0 offer'',
      gst_sdp_message_parse_buffer = sample_sdp_parse\<rparr>"

definition unexpected_world :: world where
  "unexpected_world =
     sample_world\<lparr>fetch_curl := serving_curl [''{\"error\":{\"code\":\"invalid_api_key\"}}''] CURLE_OK\<rparr>"

definition garbled_world :: world where
  "garbled_world = sample_world\<lparr>fetch_curl := serving_curl [''<html>''] CURLE_OK\<rparr>"

definition offline_world :: world where
  "offline_world = sample_world\<lparr>fetch_curl := serving_curl [] 7\<rparr>"

definition silent_exchange_world :: world where
  "silent_exchange_world = sample_world\<lparr>exchange_curl := serving_curl [] 7\<rparr>"

text \<open>
  The data channel wire message as the specification writes it (section 6), with the
  instruction string of line 148 in the place of its \<open><fixed string>\<close>.
\<close>

definition wire_template :: string where
  \<open>wire_template =
     ''{"type":"session.update","session":{"input_audio_format":"pcm24","input_text":true,"output_audio_format":"pcm24","output_text":true,"voice_activity_detection":{"mode":"advanced"},"instructions":"You are connected from C++ GStreamer client with advanced VAD enabled (PCM24)."}}''\<close>

definition keyless_world :: world where
  "keyless_world = sample_world\<lparr>getenv := (\<lambda>name. None)\<rparr>"

definition channelless_world :: world where
  "channelless_world = sample_world\<lparr>create_data_channel := None\<rparr>"

definition unauthorized_curl :: curl_easy where
  "unauthorized_curl =
     \<lparr>easy_init = True,
      easy_perform = (\<lambda>req.
        if hd (httpheader req) = ''Authorization: Bearer ''
        then ([''{\"error\":{\"code\":\"invalid_api_key\"}}''], CURLE_OK)
        else ([''v=0 answer''], CURLE_OK))\<rparr>"

definition failed_fetch_world :: world where
  "failed_fetch_world =
     sample_world\<lparr>fetch_curl := serving_curl [] 7, exchange_curl := unauthorized_curl\<rparr>"

definition garbage_answer_world :: world where
  "garbage_answer_world =
     sample_world\<lparr>exchange_curl := serving_curl [''<html>502 Bad Gateway</html>''] CURLE_OK\<rparr>"

definition reset_world :: world where
  "reset_world = sample_world\<lparr>exchange_curl := serving_curl [''v=0 ans''] 56\<rparr>"

section \<open>Facts about traces\<close>

lemma readBuffer_concat: "foldl WriteCallback acc chunks = acc @ concat chunks"
  by (induction chunks arbitrary: acc) (simp_all add: WriteCallback_def)

lemma steps_append: "steps (a @ b) = steps a @ steps b"
  by (simp add: steps_def List.map_filter_def)

lemma connected_append: "connected (a @ b) = connected a @ connected b"
  by (induction a rule: connected.induct) simp_all

lemma sent_append: "sent (a @ b) = sent a @ sent b"
  by (induction a rule: sent.induct) simp_all

lemma steps_Nil: "steps [] = []"
  by (simp add: steps_def List.map_filter_def)

lemma steps_Cons:
  "steps (e # es) = (case step_of e of None \<Rightarrow> steps es | Some s \<Rightarrow> s # steps es)"
  by (simp add: steps_def List.map_filter_def split: option.splits)

lemma steps_http:
  "steps (fst (create_ephemeral_key w)) = []"
  "steps (fst (post_offer_and_get_answer w a b)) = []"
  by (auto simp: create_ephemeral_key_def post_offer_and_get_answer_def key_of_response_def
      steps_def Let_def List.map_filter_def session_request_def
      split: prod.splits option.splits sum.splits)

lemma connected_http:
  "connected (fst (create_ephemeral_key w)) = []"
  "connected (fst (post_offer_and_get_answer w a b)) = []"
  by (auto simp: create_ephemeral_key_def post_offer_and_get_answer_def key_of_response_def
      Let_def session_request_def connected_append
      split: prod.splits option.splits sum.splits)

lemma sent_http:
  "sent (fst (create_ephemeral_key w)) = []"
  "sent (fst (post_offer_and_get_answer w a b)) = []"
  by (auto simp: create_ephemeral_key_def post_offer_and_get_answer_def key_of_response_def
      Let_def session_request_def sent_append
      split: prod.splits option.splits sum.splits)

lemma offer_callback_steps:
  "steps (fst (offer_callback w)) =
     (case create_offer w of
        None \<Rightarrow> []
      | Some offer \<Rightarrow>
          (case snd (create_ephemeral_key w) of
             Aborted f \<Rightarrow> [StepSetLocal, StepFetchStart]
           | Returned k \<Rightarrow>
               [StepSetLocal, StepFetchStart, StepFetchDone, StepExchangeStart, StepExchangeDone]
               @ (if snd (post_offer_and_get_answer w (c_str offer) k) = [] then []
                  else [StepSetRemote])))"
proof (cases "create_offer w")
  case None
  then show ?thesis
    by (simp add: offer_callback_def steps_Cons steps_Nil)
next
  case (Some offer)
  obtain t1 r1 where k: "create_ephemeral_key w = (t1, r1)"
    by (cases "create_ephemeral_key w")
  have s1: "steps t1 = []"
    using steps_http(1) [of w] k by simp
  show ?thesis
  proof (cases r1)
    case (Aborted f)
    with Some k s1 show ?thesis
      by (simp add: offer_callback_def Let_def steps_append steps_Cons steps_Nil)
  next
    case (Returned key)
    obtain t2 a where p: "post_offer_and_get_answer w (c_str offer) key = (t2, a)"
      by (cases "post_offer_and_get_answer w (c_str offer) key")
    have s2: "steps t2 = []"
      using steps_http(2) [of w "c_str offer" key] p by simp
    from Some k s1 Returned p s2 show ?thesis
      by (simp add: offer_callback_def Let_def steps_append steps_Cons steps_Nil)
  qed
qed

lemma on_negotiation_needed_steps:
  "steps (on_negotiation_needed w) = [StepCreateDataChannel, StepCreateOffer]"
  by (simp add: on_negotiation_needed_def steps_append steps_Cons steps_Nil split: option.splits)

lemma negotiation_attempt_steps:
  "steps (fst (negotiation_attempt w)) =
     [StepCreateDataChannel, StepCreateOffer] @ steps (fst (offer_callback w))"
  by (simp add: negotiation_attempt_def steps_append on_negotiation_needed_steps
      split: prod.splits)

lemma member_steps_set_remote:
  "(StepSetRemote \<in> set (steps t)) = (\<exists>m. EmitSetRemoteDescription m \<in> set t)"
proof (induction t)
  case Nil
  then show ?case by (simp add: steps_Nil)
next
  case (Cons e t)
  then show ?case
    by (cases e rule: step_of.cases) (auto simp: steps_Cons)
qed

lemma create_ephemeral_key_result:
  assumes "easy_init (fetch_curl w)"
    and "getenv w ''OPENAI_API_KEY'' = Some api_key"
    and "easy_perform (fetch_curl w) (session_request api_key) = (chunks, res)"
  shows "snd (create_ephemeral_key w) =
           Returned (snd (key_of_response w res (concat chunks)))"
  using assms
  by (simp add: create_ephemeral_key_def Let_def readBuffer_concat split: prod.splits)

lemmas world_defs =
  sample_world_def sample_environ_def serving_curl_def sample_json_parse_def
  sample_sdp_parse_def sample_strerror_def

lemmas http_defs =
  create_ephemeral_key_def post_offer_and_get_answer_def key_of_response_def
  session_request_def WriteCallback_def contains_def subscript_def c_str_def nl_def

lemma dump_session_update:
  \<open>dump session_update =
     ''{"session":{"input_audio_format":"pcm24","input_text":true,"instructions":"You are connected from C++ GStreamer client with advanced VAD enabled (PCM24).","output_audio_format":"pcm24","output_text":true,"voice_activity_detection":{"mode":"advanced"}},"type":"session.update"}''\<close>
  by (simp add: session_update_def json_object_def dump_string_def escape_char_def)

lemma sent_on_data_channel_open:
  \<open>sent (on_data_channel_open c) =
     [''{"session":{"input_audio_format":"pcm24","input_text":true,"instructions":"You are connected from C++ GStreamer client with advanced VAD enabled (PCM24).","output_audio_format":"pcm24","output_text":true,"voice_activity_detection":{"mode":"advanced"}},"type":"session.update"}'']\<close>
  by (simp add: on_data_channel_open_def Let_def dump_session_update c_str_def)

lemma sent_emit_on_open:
  "sent (emit_on_open handlers c) =
     concat (map (\<lambda>h. sent (on_data_channel_open h)) (filter (\<lambda>h. h = c) handlers))"
  by (induction handlers) (simp_all add: emit_on_open_def sent_append)

lemma main_loop_opens:
  "main_loop w handlers (map OnOpen cs) = (concat (map (emit_on_open handlers) cs), Returned ())"
  by (induction cs) simp_all

lemma main_loop_append_opens:
  "fst (main_loop w handlers (OnNegotiationNeeded # map OnOpen cs)) =
     (case snd (negotiation_attempt w) of
        Aborted f \<Rightarrow> fst (negotiation_attempt w)
      | Returned u \<Rightarrow> fst (negotiation_attempt w)
          @ concat (map (emit_on_open (handlers @ connected (fst (negotiation_attempt w)))) cs))"
  by (simp add: main_loop_opens split: prod.splits outcome.splits)

lemma connected_on_negotiation_needed:
  "connected (on_negotiation_needed w) =
     (case create_data_channel w of None \<Rightarrow> [] | Some c \<Rightarrow> [c])"
  by (simp add: on_negotiation_needed_def connected_append split: option.splits)

lemma connected_offer_callback: "connected (fst (offer_callback w)) = []"
proof (cases "create_offer w")
  case None
  then show ?thesis by (simp add: offer_callback_def)
next
  case (Some offer)
  obtain t1 r1 where k: "create_ephemeral_key w = (t1, r1)"
    by (cases "create_ephemeral_key w")
  have s1: "connected t1 = []"
    using connected_http(1) [of w] k by simp
  show ?thesis
  proof (cases r1)
    case (Aborted f)
    with Some k s1 show ?thesis
      by (simp add: offer_callback_def Let_def connected_append)
  next
    case (Returned key)
    obtain t2 a where p: "post_offer_and_get_answer w (c_str offer) key = (t2, a)"
      by (cases "post_offer_and_get_answer w (c_str offer) key")
    have s2: "connected t2 = []"
      using connected_http(2) [of w "c_str offer" key] p by simp
    from Some k s1 Returned p s2 show ?thesis
      by (simp add: offer_callback_def Let_def connected_append)
  qed
qed

lemma sent_offer_callback: "sent (fst (offer_callback w)) = []"
proof (cases "create_offer w")
  case None
  then show ?thesis by (simp add: offer_callback_def)
next
  case (Some offer)
  obtain t1 r1 where k: "create_ephemeral_key w = (t1, r1)"
    by (cases "create_ephemeral_key w")
  have s1: "sent t1 = []"
    using sent_http(1) [of w] k by simp
  show ?thesis
  proof (cases r1)
    case (Aborted f)
    with Some k s1 show ?thesis
      by (simp add: offer_callback_def Let_def sent_append)
  next
    case (Returned key)
    obtain t2 a where p: "post_offer_and_get_answer w (c_str offer) key = (t2, a)"
      by (cases "post_offer_and_get_answer w (c_str offer) key")
    have s2: "sent t2 = []"
      using sent_http(2) [of w "c_str offer" key] p by simp
    from Some k s1 Returned p s2 show ?thesis
      by (simp add: offer_callback_def Let_def sent_append)
  qed
qed

lemma connected_negotiation_attempt:
  "connected (fst (negotiation_attempt w)) =
     (case create_data_channel w of None \<Rightarrow> [] | Some c \<Rightarrow> [c])"
  using connected_offer_callback [of w]
  by (auto simp: negotiation_attempt_def connected_append connected_on_negotiation_needed
      split: prod.splits)

lemma sent_negotiation_attempt: "sent (fst (negotiation_attempt w)) = []"
  using sent_offer_callback [of w]
  by (auto simp: negotiation_attempt_def sent_append on_negotiation_needed_def
      split: prod.splits option.splits)

lemma sent_opens_replicate:
  "sent (concat (map (emit_on_open [c]) (replicate n c))) = replicate n (c_str (dump session_update))"
  by (induction n) (simp_all add: sent_append sent_emit_on_open on_data_channel_open_def Let_def)

lemma sent_attempt_then_opens:
  assumes "snd (negotiation_attempt w) = Returned u"
  shows "sent (fst (main_loop w handlers (OnNegotiationNeeded # map OnOpen cs))) =
           sent (concat (map (emit_on_open
             (handlers @ connected (fst (negotiation_attempt w)))) cs))"
proof -
  have "sent (case snd (negotiation_attempt w) of
        Aborted f \<Rightarrow> fst (negotiation_attempt w)
      | Returned u \<Rightarrow> fst (negotiation_attempt w)
          @ concat (map (emit_on_open (handlers @ connected (fst (negotiation_attempt w)))) cs)) =
     sent (concat (map (emit_on_open
             (handlers @ connected (fst (negotiation_attempt w)))) cs))"
    using assms by (simp add: sent_append sent_negotiation_attempt)
  then show ?thesis
    by (simp only: main_loop_append_opens)
qed

lemma c_str_dump_session_update:
  \<open>c_str (dump session_update) =
     ''{"session":{"input_audio_format":"pcm24","input_text":true,"instructions":"You are connected from C++ GStreamer client with advanced VAD enabled (PCM24).","output_audio_format":"pcm24","output_text":true,"voice_activity_detection":{"mode":"advanced"}},"type":"session.update"}''\<close>
  by (simp add: dump_session_update c_str_def)

lemma sent_no_handlers: "sent (concat (map (emit_on_open []) cs)) = []"
  by (induction cs) (simp_all add: sent_append emit_on_open_def)

lemma sample_attempt_returns: "snd (negotiation_attempt sample_world) = Returned ()"
  by (simp add: negotiation_attempt_def offer_callback_def world_defs http_defs Let_def)

lemma main_single:
  "main w [OnNegotiationNeeded] =
     (main_setup @ fst (negotiation_attempt w), snd (negotiation_attempt w))"
proof (cases "negotiation_attempt w")
  case (Pair t r)
  then show ?thesis
    by (cases r) (simp_all add: main_def)
qed

text \<open>
  With a handle, post_offer_and_get_answer returns the chunks of the transfer, joined,
  whatever the result code of the transfer is.
\<close>

lemma post_offer_returns_body:
  assumes "easy_init (exchange_curl w)"
  shows "snd (post_offer_and_get_answer w offer_sdp ephemeral_key) =
     concat (fst (easy_perform (exchange_curl w)
         \<lparr>url = ''https://api.openai.com/v1/realtime?model=gpt-4o-realtime-preview'',
          httpheader = [c_str (''Authorization: Bearer '' @ ephemeral_key),
                        ''Content-Type: application/sdp'', ''Accept: application/sdp''],
          postfields = offer_sdp\<rparr>))"
  using assms
  by (auto simp: post_offer_and_get_answer_def Let_def readBuffer_concat split: prod.splits)

section \<open>The claims\<close>

text \<open>
  C10. When \<open>curl_easy_init\<close> gives no handle, create_ephemeral_key and
  post_offer_and_get_answer return the empty string at once: the trace holds the failed
  initialisation and nothing else (no read of the environment, no header, no option, no
  transfer, no output).
\<close>

theorem curl_init_failure:
  "(\<not> easy_init (fetch_curl w) \<longrightarrow> create_ephemeral_key w = ([CurlEasyInit], Returned ''''))
   \<and> (\<not> easy_init (exchange_curl w) \<longrightarrow>
        post_offer_and_get_answer w offer_sdp ephemeral_key = ([CurlEasyInit], ''''))"
  by (simp add: create_ephemeral_key_def post_offer_and_get_answer_def)

theorem curl_init_failure_witness:
  "create_ephemeral_key (sample_world\<lparr>fetch_curl := refusing_curl, exchange_curl := refusing_curl\<rparr>)
     = ([CurlEasyInit], Returned '''')
   \<and> post_offer_and_get_answer
        (sample_world\<lparr>fetch_curl := refusing_curl, exchange_curl := refusing_curl\<rparr>)
        ''v=0 offer'' ''ek_123'' = ([CurlEasyInit], '''')"
  using curl_init_failure
    [of "sample_world\<lparr>fetch_curl := refusing_curl, exchange_curl := refusing_curl\<rparr>"
        "''v=0 offer''" "''ek_123''"]
  by (simp add: refusing_curl_def)

text \<open>
  C3. With a handle and the API key in the environment, create_ephemeral_key returns the
  string at \<open>client_secret.value\<close> of the parsed response when the transfer succeeded
  and the field is there; it returns the empty string when the field is missing, when the
  field holds something other than a string (the conversion throws inside the try), when
  the body does not parse, and when the transfer failed.
\<close>

theorem create_ephemeral_key_value:
  assumes "easy_init (fetch_curl w)"
    and "getenv w ''OPENAI_API_KEY'' = Some api_key"
    and "easy_perform (fetch_curl w) (session_request api_key) = (chunks, res)"
  shows
    "(res = CURLE_OK \<and> json_parse w (concat chunks) = Inr j
        \<and> contains j ''client_secret'' \<and> contains (subscript j ''client_secret'') ''value''
        \<and> subscript (subscript j ''client_secret'') ''value'' = JString s
        \<longrightarrow> snd (create_ephemeral_key w) = Returned s)
     \<and> (res = CURLE_OK \<and> json_parse w (concat chunks) = Inr j
        \<and> \<not> (contains j ''client_secret'' \<and> contains (subscript j ''client_secret'') ''value'')
        \<longrightarrow> snd (create_ephemeral_key w) = Returned '''')
     \<and> (res = CURLE_OK \<and> json_parse w (concat chunks) = Inr j
        \<and> contains j ''client_secret'' \<and> contains (subscript j ''client_secret'') ''value''
        \<and> get_string (subscript (subscript j ''client_secret'') ''value'') = None
        \<longrightarrow> snd (create_ephemeral_key w) = Returned '''')
     \<and> (res = CURLE_OK \<and> json_parse w (concat chunks) = Inl what
        \<longrightarrow> snd (create_ephemeral_key w) = Returned '''')
     \<and> (res \<noteq> CURLE_OK \<longrightarrow> snd (create_ephemeral_key w) = Returned '''')"
  using create_ephemeral_key_result [OF assms]
  by (auto simp: key_of_response_def)

theorem create_ephemeral_key_value_witness:
  "snd (create_ephemeral_key sample_world) = Returned ''ek_123''
   \<and> snd (create_ephemeral_key unexpected_world) = Returned ''''
   \<and> snd (create_ephemeral_key garbled_world) = Returned ''''
   \<and> snd (create_ephemeral_key offline_world) = Returned ''''"
proof -
  have a: "snd (create_ephemeral_key sample_world) = Returned ''ek_123''"
    using create_ephemeral_key_value
      [of sample_world "''sk-test''" "[''{\"client_secret\":'', ''{\"value\":\"ek_123\"}}'']" 0
          "JObject [(''client_secret'', JObject [(''value'', JString ''ek_123'')])]" "''ek_123''"]
    by (simp add: sample_world_def sample_environ_def serving_curl_def sample_json_parse_def
        contains_def subscript_def)
  have b: "snd (create_ephemeral_key unexpected_world) = Returned ''''"
    using create_ephemeral_key_value
      [of unexpected_world "''sk-test''" "[''{\"error\":{\"code\":\"invalid_api_key\"}}'']" 0
          "JObject [(''error'', JObject [(''code'', JString ''invalid_api_key'')])]"]
    by (simp add: unexpected_world_def sample_world_def sample_environ_def serving_curl_def
        sample_json_parse_def contains_def subscript_def)
  have c: "snd (create_ephemeral_key garbled_world) = Returned ''''"
    using create_ephemeral_key_value
      [of garbled_world "''sk-test''" "[''<html>'']" 0 _ _
          "''[json.exception.parse_error.101] parse error''"]
    by (simp add: garbled_world_def sample_world_def sample_environ_def serving_curl_def
        sample_json_parse_def)
  have d: "snd (create_ephemeral_key offline_world) = Returned ''''"
    using create_ephemeral_key_value [of offline_world "''sk-test''" "[]" 7]
    by (simp add: offline_world_def sample_world_def sample_environ_def serving_curl_def)
  from a b c d show ?thesis by simp
qed

text \<open>
  C1. The ordered calls of an attempt (trigger and offer callback), projected from its
  trace, are one of four sequences, each a prefix of the longest. So
  set-local-description comes before set-remote-description, create_ephemeral_key has
  returned before post_offer_and_get_answer is called, create-offer is emitted exactly
  once, and set-remote-description at most once.
\<close>

theorem attempt_order:
  "steps (fst (negotiation_attempt w)) = [StepCreateDataChannel, StepCreateOffer]
   \<or> steps (fst (negotiation_attempt w)) =
        [StepCreateDataChannel, StepCreateOffer, StepSetLocal, StepFetchStart]
   \<or> steps (fst (negotiation_attempt w)) =
        [StepCreateDataChannel, StepCreateOffer, StepSetLocal, StepFetchStart, StepFetchDone,
         StepExchangeStart, StepExchangeDone]
   \<or> steps (fst (negotiation_attempt w)) =
        [StepCreateDataChannel, StepCreateOffer, StepSetLocal, StepFetchStart, StepFetchDone,
         StepExchangeStart, StepExchangeDone, StepSetRemote]"
  by (simp add: negotiation_attempt_steps offer_callback_steps split: option.splits outcome.splits)

text \<open>
  C5. When post_offer_and_get_answer returns the empty string, the attempt ends in
  \<open>Failed\<close> and its trace holds no set-remote-description.
\<close>

theorem empty_answer_fails:
  assumes "create_offer w = Some offer"
    and "snd (create_ephemeral_key w) = Returned key"
    and "snd (post_offer_and_get_answer w (c_str offer) key) = ''''"
  shows "terminal_phase (fst (negotiation_attempt w)) = Failed
         \<and> (\<forall>m. EmitSetRemoteDescription m \<notin> set (fst (negotiation_attempt w)))
         \<and> steps (fst (negotiation_attempt w)) =
             [StepCreateDataChannel, StepCreateOffer, StepSetLocal, StepFetchStart,
              StepFetchDone, StepExchangeStart, StepExchangeDone]"
proof -
  have s: "steps (fst (negotiation_attempt w)) =
             [StepCreateDataChannel, StepCreateOffer, StepSetLocal, StepFetchStart,
              StepFetchDone, StepExchangeStart, StepExchangeDone]"
    using assms by (simp add: negotiation_attempt_steps offer_callback_steps)
  then have n: "StepSetRemote \<notin> set (steps (fst (negotiation_attempt w)))"
    by simp
  then have "\<forall>m. EmitSetRemoteDescription m \<notin> set (fst (negotiation_attempt w))"
    by (simp add: member_steps_set_remote)
  with s n show ?thesis
    by (simp add: terminal_phase_def)
qed

theorem empty_answer_fails_witness:
  "terminal_phase (fst (negotiation_attempt silent_exchange_world)) = Failed
   \<and> (\<forall>m. EmitSetRemoteDescription m \<notin> set (fst (negotiation_attempt silent_exchange_world)))
   \<and> steps (fst (negotiation_attempt silent_exchange_world)) =
       [StepCreateDataChannel, StepCreateOffer, StepSetLocal, StepFetchStart,
        StepFetchDone, StepExchangeStart, StepExchangeDone]"
proof -
  have a: "create_offer silent_exchange_world = Some ''v=0 offer''"
    by (simp add: silent_exchange_world_def sample_world_def)
  have b: "snd (create_ephemeral_key silent_exchange_world) = Returned ''ek_123''"
    by (simp add: create_ephemeral_key_def silent_exchange_world_def sample_world_def sample_environ_def serving_curl_def
        sample_json_parse_def contains_def subscript_def key_of_response_def Let_def
        session_request_def WriteCallback_def)
  have c: "snd (post_offer_and_get_answer silent_exchange_world (c_str ''v=0 offer'') ''ek_123'') = ''''"
    by (simp add: post_offer_and_get_answer_def silent_exchange_world_def sample_world_def
        serving_curl_def Let_def)
  show ?thesis
    using empty_answer_fails [OF a b c] .
qed

text \<open>
  C8. Every trigger asks for the data channel before it asks for the offer. When the
  engine gives no channel, the trigger does nothing more than write the warning to stderr
  and go on to create-offer, and no \<open>send-string\<close> follows whatever channels open later;
  with an offer, a credential fetch that returns and a non-empty answer, the attempt runs
  through all its steps and ends in \<open>AnswerApplied\<close>.
\<close>

theorem channel_creation_failure:
  "steps (on_negotiation_needed w) = [StepCreateDataChannel, StepCreateOffer]
   \<and> (create_data_channel w = None \<longrightarrow>
        on_negotiation_needed w =
          [Stdout (''[NEG] on-negotiation-needed'' @ nl),
           EmitCreateDataChannel ''data'',
           Stderr (''[ERR] Failed to create DataChannel. session.update cannot be sent.'' @ nl),
           Gst ''gst_promise_new_with_change_func'',
           EmitCreateOffer]
        \<and> sent (fst (main_loop w [] (OnNegotiationNeeded # map OnOpen cs))) = [])
   \<and> (create_data_channel w = None \<and> create_offer w = Some offer
        \<and> snd (create_ephemeral_key w) = Returned key
        \<and> snd (post_offer_and_get_answer w (c_str offer) key) \<noteq> [] \<longrightarrow>
        steps (fst (negotiation_attempt w)) =
          [StepCreateDataChannel, StepCreateOffer, StepSetLocal, StepFetchStart,
           StepFetchDone, StepExchangeStart, StepExchangeDone, StepSetRemote]
        \<and> terminal_phase (fst (negotiation_attempt w)) = AnswerApplied)"
proof (intro conjI impI)
  show "steps (on_negotiation_needed w) = [StepCreateDataChannel, StepCreateOffer]"
    by (rule on_negotiation_needed_steps)
next
  assume "create_data_channel w = None"
  then show "on_negotiation_needed w =
          [Stdout (''[NEG] on-negotiation-needed'' @ nl),
           EmitCreateDataChannel ''data'',
           Stderr (''[ERR] Failed to create DataChannel. session.update cannot be sent.'' @ nl),
           Gst ''gst_promise_new_with_change_func'',
           EmitCreateOffer]"
    by (simp add: on_negotiation_needed_def)
next
  assume n: "create_data_channel w = None"
  then have "connected (fst (negotiation_attempt w)) = []"
    by (simp add: connected_negotiation_attempt)
  then have "sent (case snd (negotiation_attempt w) of
        Aborted f \<Rightarrow> fst (negotiation_attempt w)
      | Returned u \<Rightarrow> fst (negotiation_attempt w)
          @ concat (map (emit_on_open ([] @ connected (fst (negotiation_attempt w)))) cs)) = []"
    by (simp add: sent_append sent_negotiation_attempt sent_no_handlers split: outcome.splits)
  then show "sent (fst (main_loop w [] (OnNegotiationNeeded # map OnOpen cs))) = []"
    by (simp only: main_loop_append_opens)
next
  assume a: "create_data_channel w = None \<and> create_offer w = Some offer
        \<and> snd (create_ephemeral_key w) = Returned key
        \<and> snd (post_offer_and_get_answer w (c_str offer) key) \<noteq> []"
  then show s: "steps (fst (negotiation_attempt w)) =
          [StepCreateDataChannel, StepCreateOffer, StepSetLocal, StepFetchStart,
           StepFetchDone, StepExchangeStart, StepExchangeDone, StepSetRemote]"
    by (simp add: negotiation_attempt_steps offer_callback_steps)
  then show "terminal_phase (fst (negotiation_attempt w)) = AnswerApplied"
    by (simp add: terminal_phase_def)
qed

theorem channel_creation_failure_witness:
  "steps (on_negotiation_needed channelless_world) = [StepCreateDataChannel, StepCreateOffer]
   \<and> sent (fst (main_loop channelless_world []
        (OnNegotiationNeeded # map OnOpen [1, 1, 2]))) = []
   \<and> steps (fst (negotiation_attempt channelless_world)) =
        [StepCreateDataChannel, StepCreateOffer, StepSetLocal, StepFetchStart,
         StepFetchDone, StepExchangeStart, StepExchangeDone, StepSetRemote]
   \<and> terminal_phase (fst (negotiation_attempt channelless_world)) = AnswerApplied"
proof -
  have a: "create_data_channel channelless_world = None"
    by (simp add: channelless_world_def)
  have b: "create_offer channelless_world = Some ''v=0 offer''"
    by (simp add: channelless_world_def sample_world_def)
  have c: "snd (create_ephemeral_key channelless_world) = Returned ''ek_123''"
    by (simp add: channelless_world_def world_defs http_defs Let_def)
  have d: "snd (post_offer_and_get_answer channelless_world (c_str ''v=0 offer'') ''ek_123'') \<noteq> []"
    by (simp add: channelless_world_def world_defs http_defs Let_def)
  note t = channel_creation_failure [of channelless_world "[1, 1, 2]" "''v=0 offer''" "''ek_123''"]
  have 1: "steps (on_negotiation_needed channelless_world) = [StepCreateDataChannel, StepCreateOffer]"
    using t by (rule conjunct1)
  have 2: "sent (fst (main_loop channelless_world []
        (OnNegotiationNeeded # map OnOpen [1, 1, 2]))) = []"
    using t [THEN conjunct2, THEN conjunct1, rule_format, OF a] by (rule conjunct2)
  have 3: "steps (fst (negotiation_attempt channelless_world)) =
        [StepCreateDataChannel, StepCreateOffer, StepSetLocal, StepFetchStart,
         StepFetchDone, StepExchangeStart, StepExchangeDone, StepSetRemote]
   \<and> terminal_phase (fst (negotiation_attempt channelless_world)) = AnswerApplied"
    using t [THEN conjunct2, THEN conjunct2, THEN mp, OF conjI [OF a conjI [OF b conjI [OF c d]]]] .
  from 1 2 3 show ?thesis by blast
qed

text \<open>
  C7, as amended. With the data channel created and the attempt's callback returned,
  \<open>n\<close> open events of that channel give exactly \<open>n\<close> messages, one for each event
  (one message for one event), and every message is the same bytes: the compact dump of
  the object of lines 140-150, with the members of each object in the order of their
  keys.
\<close>

theorem one_message_per_open:
  assumes "create_data_channel w = Some c"
    and "snd (negotiation_attempt w) = Returned ()"
  shows \<open>sent (fst (main_loop w [] (OnNegotiationNeeded # replicate n (OnOpen c)))) =
     replicate n
       ''{"session":{"input_audio_format":"pcm24","input_text":true,"instructions":"You are connected from C++ GStreamer client with advanced VAD enabled (PCM24).","output_audio_format":"pcm24","output_text":true,"voice_activity_detection":{"mode":"advanced"}},"type":"session.update"}''\<close>
proof -
  have h: "[] @ connected (fst (negotiation_attempt w)) = [c]"
    using assms(1) by (simp add: connected_negotiation_attempt)
  have e: "replicate n (OnOpen c) = map OnOpen (replicate n c)"
    by simp
  have m: "sent (fst (main_loop w [] (OnNegotiationNeeded # map OnOpen (replicate n c)))) =
             sent (concat (map (emit_on_open [c]) (replicate n c)))"
    using sent_attempt_then_opens [OF assms(2), of "[]" "replicate n c"] unfolding h .
  show ?thesis
    unfolding e m sent_opens_replicate c_str_dump_session_update ..
qed

theorem one_message_per_open_witness:
  \<open>sent (fst (main_loop sample_world [] (OnNegotiationNeeded # replicate 1 (OnOpen 1)))) =
     [''{"session":{"input_audio_format":"pcm24","input_text":true,"instructions":"You are connected from C++ GStreamer client with advanced VAD enabled (PCM24).","output_audio_format":"pcm24","output_text":true,"voice_activity_detection":{"mode":"advanced"}},"type":"session.update"}'']\<close>
proof -
  have a: "create_data_channel sample_world = Some 1"
    by (simp add: sample_world_def)
  show ?thesis
    using one_message_per_open [OF a sample_attempt_returns, of 1] by simp
qed

text \<open>
  C7, counterexample. After the answer is applied, two open events of the channel give two
  messages, and the bytes of a message are not the template of the specification, which
  lists \<open>type\<close> before \<open>session\<close> and \<open>instructions\<close> last.
\<close>

theorem repeated_open_sends_again:
  "length (sent (fst (main sample_world [OnNegotiationNeeded, OnOpen 1, OnOpen 1]))) = 2
   \<and> hd (sent (fst (main sample_world [OnNegotiationNeeded, OnOpen 1]))) \<noteq> wire_template
   \<and> terminal_phase (fst (negotiation_attempt sample_world)) = AnswerApplied"
proof -
  have c: "[] @ connected (fst (negotiation_attempt sample_world)) = [1]"
    by (simp add: connected_negotiation_attempt sample_world_def)
  have m: "\<And>cs. sent (fst (main_loop sample_world [] (OnNegotiationNeeded # map OnOpen cs))) =
             sent (concat (map (emit_on_open [1]) cs))"
    using sent_attempt_then_opens [OF sample_attempt_returns, of "[]"] unfolding c .
  have s: "\<And>sigs. sent (fst (main sample_world sigs)) = sent (fst (main_loop sample_world [] sigs))"
    by (simp add: main_def main_setup_def sent_append split: prod.splits)
  have two: "length (sent (fst (main sample_world [OnNegotiationNeeded, OnOpen 1, OnOpen 1]))) = 2"
    using m [of "[1, 1]"] unfolding s
    by (simp add: sent_append sent_emit_on_open sent_on_data_channel_open)
  have one: "hd (sent (fst (main sample_world [OnNegotiationNeeded, OnOpen 1]))) \<noteq> wire_template"
    using m [of "[1]"] unfolding s
    by (simp add: sent_append sent_emit_on_open sent_on_data_channel_open wire_template_def)
  have "steps (fst (negotiation_attempt sample_world)) =
          [StepCreateDataChannel, StepCreateOffer, StepSetLocal, StepFetchStart,
           StepFetchDone, StepExchangeStart, StepExchangeDone, StepSetRemote]"
    by (simp add: negotiation_attempt_steps offer_callback_steps world_defs http_defs Let_def)
  then have "terminal_phase (fst (negotiation_attempt sample_world)) = AnswerApplied"
    by (simp add: terminal_phase_def)
  with two one show ?thesis by simp
qed

text \<open>
  C9, the program at an environment without \<open>OPENAI_API_KEY\<close>. main does not read the
  environment; the first attempt sets the local description, enters create_ephemeral_key
  and faults there on the null pointer \<open>std::getenv\<close> returned.
\<close>

theorem missing_api_key_faults_in_fetch:
  "create_ephemeral_key keyless_world =
     ([CurlEasyInit, Getenv ''OPENAI_API_KEY''], Aborted NullString)
   \<and> snd (main keyless_world [OnNegotiationNeeded]) = Aborted NullString
   \<and> steps (fst (main keyless_world [OnNegotiationNeeded])) =
       [StepCreateDataChannel, StepCreateOffer, StepSetLocal, StepFetchStart]
   \<and> Getenv ''OPENAI_API_KEY'' \<notin> set main_setup"
proof -
  have k: "create_ephemeral_key keyless_world =
     ([CurlEasyInit, Getenv ''OPENAI_API_KEY''], Aborted NullString)"
    by (simp add: keyless_world_def world_defs create_ephemeral_key_def)
  have o: "create_offer keyless_world = Some ''v=0 offer''"
    by (simp add: keyless_world_def world_defs)
  have r: "snd (negotiation_attempt keyless_world) = Aborted NullString"
    using k o by (simp add: negotiation_attempt_def offer_callback_def Let_def)
  have m: "snd (main keyless_world [OnNegotiationNeeded]) = Aborted NullString"
    using r by (simp add: main_single)
  have t: "fst (main keyless_world [OnNegotiationNeeded]) =
             main_setup @ fst (negotiation_attempt keyless_world)"
    by (simp add: main_single)
  have s: "steps (fst (main keyless_world [OnNegotiationNeeded])) =
       [StepCreateDataChannel, StepCreateOffer, StepSetLocal, StepFetchStart]"
    unfolding t using k o
    by (simp add: steps_append negotiation_attempt_steps offer_callback_steps main_setup_def
        steps_Cons steps_Nil)
  have g: "Getenv ''OPENAI_API_KEY'' \<notin> set main_setup"
    by (simp add: main_setup_def)
  from k m s g show ?thesis by blast
qed

text \<open>
  C2, the program when the credential fetch cannot connect. create_ephemeral_key returns
  the empty string, the callback posts the offer all the same, with an empty bearer
  token, and hands the error body of the service to the engine as the remote description.
\<close>

theorem empty_credential_still_posted:
  "snd (create_ephemeral_key failed_fetch_world) = Returned ''''
   \<and> CurlPerform
        \<lparr>url = ''https://api.openai.com/v1/realtime?model=gpt-4o-realtime-preview'',
         httpheader = [''Authorization: Bearer '', ''Content-Type: application/sdp'',
                       ''Accept: application/sdp''],
         postfields = ''v=0 offer''\<rparr>
       \<in> set (fst (negotiation_attempt failed_fetch_world))
   \<and> terminal_phase (fst (negotiation_attempt failed_fetch_world)) = AnswerApplied"
proof -
  have k: "create_ephemeral_key failed_fetch_world =
     ([CurlEasyInit, Getenv ''OPENAI_API_KEY'',
       CurlSlistAppend ''Authorization: Bearer sk-test'',
       CurlSlistAppend ''Content-Type: application/json'',
       CurlSetopt (CURLOPT_URL ''https://api.openai.com/v1/realtime/sessions''),
       CurlSetopt (CURLOPT_HTTPHEADER
         [''Authorization: Bearer sk-test'', ''Content-Type: application/json'']),
       CurlSetopt (CURLOPT_POSTFIELDS ''{\"model\": \"gpt-4o-realtime-preview\"}''),
       CurlSetopt CURLOPT_WRITEFUNCTION, CurlSetopt CURLOPT_WRITEDATA,
       CurlPerform (session_request ''sk-test''),
       Stderr (''[ERR] CURL request failed: Couldn't connect to server'' @ nl),
       CurlSlistFreeAll, CurlCleanup], Returned '''')"
    by (simp add: failed_fetch_world_def world_defs create_ephemeral_key_def
        key_of_response_def session_request_def c_str_def Let_def)
  have o: "create_offer failed_fetch_world = Some ''v=0 offer''"
    by (simp add: failed_fetch_world_def world_defs)
  have p: "snd (post_offer_and_get_answer failed_fetch_world (c_str ''v=0 offer'') '''') =
             ''{\"error\":{\"code\":\"invalid_api_key\"}}''"
    by (simp add: failed_fetch_world_def world_defs unauthorized_curl_def
        post_offer_and_get_answer_def c_str_def Let_def WriteCallback_def)
  have q: "CurlPerform
        \<lparr>url = ''https://api.openai.com/v1/realtime?model=gpt-4o-realtime-preview'',
         httpheader = [''Authorization: Bearer '', ''Content-Type: application/sdp'',
                       ''Accept: application/sdp''],
         postfields = ''v=0 offer''\<rparr>
       \<in> set (fst (post_offer_and_get_answer failed_fetch_world (c_str ''v=0 offer'') ''''))"
    by (simp add: failed_fetch_world_def world_defs unauthorized_curl_def
        post_offer_and_get_answer_def c_str_def Let_def)
  have m: "set (fst (post_offer_and_get_answer failed_fetch_world (c_str ''v=0 offer'') ''''))
            \<subseteq> set (fst (negotiation_attempt failed_fetch_world))"
    using k o
    by (auto simp: negotiation_attempt_def offer_callback_def Let_def split: prod.splits)
  have s: "steps (fst (negotiation_attempt failed_fetch_world)) =
          [StepCreateDataChannel, StepCreateOffer, StepSetLocal, StepFetchStart,
           StepFetchDone, StepExchangeStart, StepExchangeDone, StepSetRemote]"
    using k o p by (simp add: negotiation_attempt_steps offer_callback_steps)
  then have "terminal_phase (fst (negotiation_attempt failed_fetch_world)) = AnswerApplied"
    by (simp add: terminal_phase_def)
  with k q m show ?thesis by auto
qed

text \<open>
  C4, the program at an answer body that is no session description. The result of
  \<open>gst_sdp_message_parse_buffer\<close> is not looked at, and set-remote-description is emitted
  with what the parser left in the message.
\<close>

theorem malformed_answer_still_applied:
  "snd (post_offer_and_get_answer garbage_answer_world (c_str ''v=0 offer'') ''ek_123'') =
     ''<html>502 Bad Gateway</html>''
   \<and> gst_sdp_message_parse_buffer garbage_answer_world ''<html>502 Bad Gateway</html>'' =
       (GST_SDP_EINVAL, [])
   \<and> EmitSetRemoteDescription [] \<in> set (fst (negotiation_attempt garbage_answer_world))
   \<and> terminal_phase (fst (negotiation_attempt garbage_answer_world)) = AnswerApplied"
proof -
  have k: "snd (create_ephemeral_key garbage_answer_world) = Returned ''ek_123''"
    by (simp add: garbage_answer_world_def world_defs http_defs Let_def)
  have o: "create_offer garbage_answer_world = Some ''v=0 offer''"
    by (simp add: garbage_answer_world_def world_defs)
  have p: "snd (post_offer_and_get_answer garbage_answer_world (c_str ''v=0 offer'') ''ek_123'') =
     ''<html>502 Bad Gateway</html>''"
    by (simp add: garbage_answer_world_def world_defs
        post_offer_and_get_answer_def c_str_def Let_def WriteCallback_def)
  have g: "gst_sdp_message_parse_buffer garbage_answer_world ''<html>502 Bad Gateway</html>'' =
       (GST_SDP_EINVAL, [])"
    by (simp add: garbage_answer_world_def world_defs)
  have e: "EmitSetRemoteDescription [] \<in> set (fst (negotiation_attempt garbage_answer_world))"
    using k o p g
    by (auto simp: negotiation_attempt_def offer_callback_def Let_def split: prod.splits)
  then have "StepSetRemote \<in> set (steps (fst (negotiation_attempt garbage_answer_world)))"
    unfolding member_steps_set_remote by (rule exI)
  then have "terminal_phase (fst (negotiation_attempt garbage_answer_world)) = AnswerApplied"
    by (simp add: terminal_phase_def)
  with p g e show ?thesis by blast
qed

text \<open>
  C6, the program at a transfer that hands over a part of the body and then fails.
  post_offer_and_get_answer logs the failure and returns the part it has received.
\<close>

theorem partial_body_returned_on_failure:
  "easy_perform (exchange_curl reset_world)
       \<lparr>url = ''https://api.openai.com/v1/realtime?model=gpt-4o-realtime-preview'',
        httpheader = [''Authorization: Bearer ek_123'', ''Content-Type: application/sdp'',
                      ''Accept: application/sdp''],
        postfields = ''v=0 offer''\<rparr> = ([''v=0 ans''], 56)
   \<and> snd (post_offer_and_get_answer reset_world ''v=0 offer'' ''ek_123'') = ''v=0 ans''
   \<and> Stderr (''[ERR] CURL failed: Failure when receiving data from the peer'' @ nl)
       \<in> set (fst (post_offer_and_get_answer reset_world ''v=0 offer'' ''ek_123''))"
  by (simp add: reset_world_def world_defs post_offer_and_get_answer_def c_str_def Let_def
      WriteCallback_def)

end
